theory Spec2Isabelle
  imports Complex_Main "HOL-Library.Word" "HOL-Library.Log_Nat"
begin

unbundle bit_operations_syntax

section \<open>Data model\<close>

text \<open>
  Python \<open>bytes\<close> values are lists of 8-bit words. In \<open>ddht/v5/tags.py\<close> a NodeID is
  handled as the raw 32-byte string; in \<open>ddht/v5_1/network.py\<close> node ids are only
  compared, put into sets and measured by XOR distance, so there a NodeID is the
  256-bit number its 32 bytes denote. Distances and sequence numbers travel as RLP
  big-endian integers, which are never negative: they are naturals.
\<close>

type_synonym bytes = "8 word list"

type_synonym node_id = "256 word"

type_synonym endpoint = "bytes \<times> nat"

datatype enr_value = VBytes bytes | VInt int

text \<open>An ENR: the node id it belongs to, its sequence number, its key-value pairs
  (a Python mapping) and its signature.\<close>

record enr =
  node_id :: node_id
  sequence_number :: nat
  kv_pairs :: "bytes \<rightharpoonup> enr_value"
  signature :: bytes

text \<open>Every exception the modelled code raises or lets through is a value.
  \<open>Cancelled\<close> is \<open>trio.Cancelled\<close>, \<open>Exception\<close> the bare \<open>Exception\<close> of
  \<open>lookup_enr\<close> and of the unreachable branch of \<open>_serve_find_nodes\<close>.\<close>

datatype error =
    TypeError | KeyError | IndexError | TooSlowError | Cancelled
  | MissingEndpointFields | ValidationError | OldSequenceNumber
  | EmptyFindNodesResponse | ProtocolNotSupported bytes | Exception

text \<open>What the node does towards the outside is recorded, in order, in a trace:
  the requests and responses handed to the client, and the recursive lookups started.\<close>

datatype action =
    SendFindNode node_id endpoint "nat list" "bytes option"
  | SendStreamFindNode node_id endpoint "nat list" "bytes option"
  | SendFoundNodes node_id endpoint "enr list" bytes
  | SendTalkRequest node_id endpoint bytes bytes "bytes option"
  | SendTalkResponse node_id endpoint bytes bytes
  | RecursiveFindNodes node_id

text \<open>Modelled from the spec: \<open>KademliaRoutingTable\<close> of \<open>ddht/kademlia.py\<close>, which is
  not among the sources. Of the spec's routing table the fields read here: the local
  node id, \<open>bucket_size\<close>, and the 256 buckets, bucket \<open>i\<close> being \<open>buckets rt i\<close>,
  least recently witnessed first.\<close>

record routing_table =
  center_node_id :: node_id
  bucket_size :: nat
  buckets :: "nat \<Rightarrow> node_id list"

text \<open>The state of a \<open>Network\<close> that the modelled methods read or change.
  \<open>local_enr\<close> is \<open>enr_manager.enr\<close>, \<open>talk_protocols\<close> the dict \<open>_talk_protocols\<close>
  (a handler is represented by a number).\<close>

record network =
  local_node_id :: node_id
  local_enr :: enr
  enr_db :: "node_id \<rightharpoonup> enr"
  routing_table :: routing_table
  talk_protocols :: "bytes \<rightharpoonup> nat"
  trace :: "action list"

text \<open>
  The environment: what the remote peers answer through the client
  (\<open>Inl TooSlowError\<close> when they do not), what a recursive lookup streams to its
  consumer and the state it leaves, and the helpers that are not among the sources:
  \<open>Endpoint.from_enr\<close> (\<open>None\<close> when it raises \<open>MissingEndpointFields\<close>) and \<open>reduce_enrs\<close>.
\<close>

record env =
  client_find_nodes :: "node_id \<Rightarrow> endpoint \<Rightarrow> nat list \<Rightarrow> bytes option \<Rightarrow> error + enr list list"
  client_stream_find_nodes :: "node_id \<Rightarrow> endpoint \<Rightarrow> nat list \<Rightarrow> bytes option \<Rightarrow> enr list list"
  client_talk :: "node_id \<Rightarrow> endpoint \<Rightarrow> bytes \<Rightarrow> bytes \<Rightarrow> bytes option \<Rightarrow> error + bytes"
  run_recursive_find_nodes :: "network \<Rightarrow> node_id \<Rightarrow> enr list \<times> network"
  endpoint_from_enr :: "enr \<Rightarrow> endpoint option"
  reduce_enrs :: "enr list \<Rightarrow> enr list"

section \<open>Distances and validation\<close>

text \<open>
  Modelled from the spec: \<open>compute_distance\<close> and \<open>compute_log_distance\<close> of
  \<open>ddht/kademlia.py\<close>, which is not among the sources. The spec's metric is the XOR of
  the two ids, and its glossary gives \<open>log_distance(a, b)\<close> as
  \<open>\<lfloor>log\<^sub>2(a XOR b)\<rfloor> + 1\<close>, or 0 when \<open>a = b\<close>; \<open>floorlog 2 x\<close> is
  \<open>\<lfloor>log\<^sub>2 x\<rfloor> + 1\<close> for positive \<open>x\<close>.
\<close>

definition compute_distance :: "node_id \<Rightarrow> node_id \<Rightarrow> nat" where
  "compute_distance a b = unat (a XOR b)"

definition compute_log_distance :: "node_id \<Rightarrow> node_id \<Rightarrow> nat" where
  "compute_log_distance a b = (if a = b then 0 else floorlog 2 (compute_distance a b))"

text \<open>
  Modelled from the spec: \<open>validate_found_nodes_distances\<close> of \<open>ddht/validation.py\<close>,
  which is not among the sources. The spec requires of every ENR of a response that
  \<open>log_distance(peer.node_id, enr.node_id) \<in> distances\<close>, and lists the violation of a
  distance constraint as a validation error; \<open>find_nodes\<close> calls the function as a
  statement and \<open>do_lookup\<close> catches \<open>ValidationError\<close> around \<open>find_nodes\<close>.
  \<open>None\<close> is the normal return.
\<close>

fun validate_found_nodes_distances :: "enr list \<Rightarrow> node_id \<Rightarrow> nat list \<Rightarrow> error option" where
  "validate_found_nodes_distances [] peer distances = None"
| "validate_found_nodes_distances (e # enrs) peer distances =
     (if compute_log_distance peer (node_id e) \<in> set distances
      then validate_found_nodes_distances enrs peer distances
      else Some ValidationError)"

text \<open>The loop \<open>for response in responses: validate_found_nodes_distances(...)\<close>.\<close>

fun validate_responses :: "enr list list \<Rightarrow> node_id \<Rightarrow> nat list \<Rightarrow> error option" where
  "validate_responses [] peer distances = None"
| "validate_responses (r # rs) peer distances =
     (case validate_found_nodes_distances r peer distances of
        Some err \<Rightarrow> Some err
      | None \<Rightarrow> validate_responses rs peer distances)"

text \<open>
  \<open>enr_db.set_enr\<close> (the ENR database is the \<open>eth_enr\<close> library's): by the spec it
  rejects a record whose sequence number is less than the stored one.
\<close>

definition set_enr :: "(node_id \<rightharpoonup> enr) \<Rightarrow> enr \<Rightarrow> error + (node_id \<rightharpoonup> enr)" where
  "set_enr db e =
     (case db (node_id e) of
        None \<Rightarrow> Inr (db(node_id e \<mapsto> e))
      | Some existing \<Rightarrow>
          if sequence_number e < sequence_number existing then Inl OldSequenceNumber
          else Inr (db(node_id e \<mapsto> e)))"

definition log_action :: "action \<Rightarrow> network \<Rightarrow> network" where
  "log_action a net = net\<lparr>trace := trace net @ [a]\<rparr>"

section \<open>\<open>Network\<close>: find_nodes, endpoint_for_node_id, lookup_enr, _fetch_enr\<close>

text \<open>
  The four methods call each other, so they are one recursive definition. Each returns
  its result (\<open>Inl\<close> the exception raised) with the state it leaves.
  \<open>lookup_enr_fetch\<close> is the part of \<open>lookup_enr\<close> after its \<open>try\<close> statement: fetch,
  store while ignoring \<open>OldSequenceNumber\<close>, return. The recursion ends because
  \<open>lookup_enr\<close> reaches \<open>find_nodes\<close> either with an endpoint or with the ENR in the
  database.
\<close>

function find_nodes :: "env \<Rightarrow> network \<Rightarrow> node_id \<Rightarrow> nat list \<Rightarrow> endpoint option \<Rightarrow> bytes option
                          \<Rightarrow> (error + enr list) \<times> network"
  and endpoint_for_node_id :: "env \<Rightarrow> network \<Rightarrow> node_id \<Rightarrow> (error + endpoint) \<times> network"
  and lookup_enr :: "env \<Rightarrow> network \<Rightarrow> node_id \<Rightarrow> nat \<Rightarrow> endpoint option \<Rightarrow> (error + enr) \<times> network"
  and lookup_enr_fetch :: "env \<Rightarrow> network \<Rightarrow> node_id \<Rightarrow> endpoint option \<Rightarrow> (error + enr) \<times> network"
  and fetch_enr :: "env \<Rightarrow> network \<Rightarrow> node_id \<Rightarrow> endpoint option \<Rightarrow> (error + enr) \<times> network"
where
  "find_nodes ev net n distances endpoint request_id =
     (if distances = [] then (Inl TypeError, net)
      else
        (case (case endpoint of
                 None \<Rightarrow> endpoint_for_node_id ev net n
               | Some ep \<Rightarrow> (Inr ep, net)) of
           (Inl err, net1) \<Rightarrow> (Inl err, net1)
         | (Inr ep, net1) \<Rightarrow>
             (let net2 = log_action (SendFindNode n ep distances request_id) net1 in
              case client_find_nodes ev n ep distances request_id of
                Inl err \<Rightarrow> (Inl err, net2)
              | Inr responses \<Rightarrow>
                  (case validate_responses responses n distances of
                     Some err \<Rightarrow> (Inl err, net2)
                   | None \<Rightarrow> (Inr (concat responses), net2)))))"
| "endpoint_for_node_id ev net n =
     (case enr_db net n of
        Some e \<Rightarrow>
          (case endpoint_from_enr ev e of
             None \<Rightarrow> (Inl MissingEndpointFields, net)
           | Some ep \<Rightarrow> (Inr ep, net))
      | None \<Rightarrow>
          (case lookup_enr ev net n 0 None of
             (Inl err, net1) \<Rightarrow> (Inl err, net1)
           | (Inr e, net1) \<Rightarrow>
               (case endpoint_from_enr ev e of
                  None \<Rightarrow> (Inl MissingEndpointFields, net1)
                | Some ep \<Rightarrow> (Inr ep, net1))))"
| "lookup_enr ev net n enr_seq endpoint =
     (if n = local_node_id net then (Inl Exception, net)
      else
        (case enr_db net n of
           None \<Rightarrow>
             (case endpoint of
                None \<Rightarrow>
                  (case run_recursive_find_nodes ev (log_action (RecursiveFindNodes n) net) n of
                     (found, net1) \<Rightarrow>
                       (case find (\<lambda>found_enr. node_id found_enr = n) found of
                          None \<Rightarrow> (Inl KeyError, net1)
                        | Some found_enr \<Rightarrow>
                            (case endpoint_from_enr ev found_enr of
                               None \<Rightarrow> (Inl MissingEndpointFields, net1)
                             | Some ep \<Rightarrow> lookup_enr_fetch ev net1 n (Some ep))))
              | Some ep \<Rightarrow> lookup_enr_fetch ev net n (Some ep))
         | Some e \<Rightarrow>
             if enr_seq \<le> sequence_number e then (Inr e, net)
             else lookup_enr_fetch ev net n endpoint))"
| "lookup_enr_fetch ev net n endpoint =
     (case fetch_enr ev net n endpoint of
        (Inl err, net1) \<Rightarrow> (Inl err, net1)
      | (Inr e, net1) \<Rightarrow>
          (case set_enr (enr_db net1) e of
             Inl err \<Rightarrow> (Inr e, net1)
           | Inr db \<Rightarrow> (Inr e, net1\<lparr>enr_db := db\<rparr>)))"
| "fetch_enr ev net n endpoint =
     (case find_nodes ev net n [0] endpoint None of
        (Inl err, net1) \<Rightarrow> (Inl err, net1)
      | (Inr enrs, net1) \<Rightarrow>
          if enrs = [] then (Inl EmptyFindNodesResponse, net1)
          else
            (case reduce_enrs ev enrs of
               [] \<Rightarrow> (Inl IndexError, net1)
             | e # rest \<Rightarrow> (Inr e, net1)))"
  by pat_completeness auto

termination
  apply (relation "measure (\<lambda>x. case x of
      Inl (Inl (ev, net, n, ds, ep, rid)) \<Rightarrow> (if ep = None then (if enr_db net n = None then 7 else 2) else 0)
    | Inl (Inr (ev, net, n)) \<Rightarrow> (if enr_db net n = None then 6 else 1)
    | Inr (Inl (ev, net, n, s, ep)) \<Rightarrow> 5
    | Inr (Inr (Inl (ev, net, n, ep))) \<Rightarrow> (if ep = None then (if enr_db net n = None then 9 else 4) else 2)
    | Inr (Inr (Inr (ev, net, n, ep))) \<Rightarrow> (if ep = None then (if enr_db net n = None then 8 else 3) else 1))")
       apply (auto split: if_splits)
  done

declare find_nodes.simps [simp del] endpoint_for_node_id.simps [simp del]
  lookup_enr.simps [simp del] lookup_enr_fetch.simps [simp del] fetch_enr.simps [simp del]

text \<open>The endpoint to use: the one given, else \<open>await endpoint_for_node_id(node_id)\<close>.\<close>

definition resolve_endpoint :: "env \<Rightarrow> network \<Rightarrow> node_id \<Rightarrow> endpoint option \<Rightarrow> (error + endpoint) \<times> network" where
  "resolve_endpoint ev net n endpoint =
     (case endpoint of
        None \<Rightarrow> endpoint_for_node_id ev net n
      | Some ep \<Rightarrow> (Inr ep, net))"

definition talk :: "env \<Rightarrow> network \<Rightarrow> node_id \<Rightarrow> bytes \<Rightarrow> bytes \<Rightarrow> endpoint option \<Rightarrow> bytes option
                      \<Rightarrow> (error + bytes) \<times> network" where
  "talk ev net n protocol payload endpoint request_id =
     (case resolve_endpoint ev net n endpoint of
        (Inl err, net1) \<Rightarrow> (Inl err, net1)
      | (Inr ep, net1) \<Rightarrow>
          (let net2 = log_action (SendTalkRequest n ep protocol payload request_id) net1 in
           case client_talk ev n ep protocol payload request_id of
             Inl err \<Rightarrow> (Inl err, net2)
           | Inr response_payload \<Rightarrow>
               if response_payload = [] then (Inl (ProtocolNotSupported protocol), net2)
               else (Inr response_payload, net2)))"

text \<open>
  Entering the context manager \<open>common_network_stream_find_nodes\<close>: the check of
  \<open>distances\<close>, the endpoint, then the background task that streams the ENRs of every
  response into the channel handed to the caller. The result is the content of that
  channel.
\<close>

definition common_network_stream_find_nodes ::
  "env \<Rightarrow> network \<Rightarrow> node_id \<Rightarrow> endpoint option \<Rightarrow> nat list \<Rightarrow> bytes option
     \<Rightarrow> (error + enr list) \<times> network" where
  "common_network_stream_find_nodes ev net n endpoint distances request_id =
     (if distances = [] then (Inl TypeError, net)
      else
        (case resolve_endpoint ev net n endpoint of
           (Inl err, net1) \<Rightarrow> (Inl err, net1)
         | (Inr ep, net1) \<Rightarrow>
             (Inr (concat (client_stream_find_nodes ev n ep distances request_id)),
              log_action (SendStreamFindNode n ep distances request_id) net1)))"

section \<open>\<open>Network\<close>: the request handlers\<close>

text \<open>
  Modelled from the spec: \<open>num_buckets\<close> and \<open>get_nodes_at_log_distance\<close> of
  \<open>KademliaRoutingTable\<close> (\<open>ddht/kademlia.py\<close>, not among the sources). The spec gives
  \<open>num_buckets (=256)\<close> and \<open>get_nodes_at_log_distance(d)\<close> as the bucket at index
  \<open>d - 1\<close>, head to tail. \<open>_serve_find_nodes\<close> asks only for \<open>0 < d \<le> num_buckets\<close>.
\<close>

definition num_buckets :: "routing_table \<Rightarrow> nat" where
  "num_buckets rt = 256"


record find_node_request =
  sender_node_id :: node_id
  sender_endpoint :: endpoint
  request_id :: bytes
  distances :: "nat list"




record talk_request =
  talk_sender_node_id :: node_id
  talk_sender_endpoint :: endpoint
  talk_request_id :: bytes
  talk_protocol :: bytes
  talk_payload :: bytes

text \<open>One turn of the loop of \<open>_handle_unhandled_talk_requests\<close>.\<close>

definition handle_unhandled_talk_requests :: "network \<Rightarrow> talk_request \<Rightarrow> network" where
  "handle_unhandled_talk_requests net request =
     (if talk_protocol request \<notin> dom (talk_protocols net)
      then log_action (SendTalkResponse (talk_sender_node_id request) (talk_sender_endpoint request)
                         [] (talk_request_id request)) net
      else net)"

section \<open>The recursive find-nodes engine (\<open>common_recursive_find_nodes\<close>)\<close>

text \<open>
  Modelled from the spec: \<open>iter_closest_nodes\<close> of \<open>ddht/kademlia.py\<close>, which is not
  among the sources. By the spec it yields every known node id, those of the routing
  table and those received, in ascending XOR distance to the target, each once.
\<close>

definition routing_table_nodes :: "routing_table \<Rightarrow> node_id list" where
  "routing_table_nodes rt = concat (map (buckets rt) [0..<num_buckets rt])"

definition iter_closest_nodes :: "node_id \<Rightarrow> routing_table \<Rightarrow> node_id set \<Rightarrow> node_id list" where
  "iter_closest_nodes target rt seen_nodes =
     sort_key (compute_distance target)
       (sorted_list_of_set (set (routing_table_nodes rt) \<union> seen_nodes))"

text \<open>
  \<open>LRU(2048)\<close> of the \<open>lru-dict\<close> library, the shared
  \<open>UNRESPONSIVE_CACHE\<close>: the entries from the most to the least recently set, at most
  2048 of them. Times are \<open>trio.current_time()\<close> seconds, Python floats (IEEE
  binary64): a time is the real number that the float denotes.
\<close>

type_synonym lru = "(node_id \<times> real) list"

definition lru_set :: "node_id \<Rightarrow> real \<Rightarrow> lru \<Rightarrow> lru" where
  "lru_set k v c = take 2048 ((k, v) # filter (\<lambda>(k', v'). k' \<noteq> k) c)"

text \<open>The local variables of one invocation, the shared cache, the ENR database and
  what was sent on \<open>send_channel\<close>.\<close>

record lookup_state =
  queried_node_ids :: "node_id set"
  unresponsive_node_ids :: "node_id set"
  received_node_ids :: "node_id set"
  in_flight :: "node_id set"
  unresponsive_cache :: lru
  lookup_enr_db :: "node_id \<rightharpoonup> enr"
  channel :: "enr list"

text \<open>
  The head of \<open>common_recursive_find_nodes\<close>. The generator reads
  \<open>trio.current_time()\<close> anew for every entry of \<open>unresponsive_cache.items()\<close>:
  \<open>clock i\<close> is the reading taken for entry \<open>i\<close>. The difference
  \<open>trio.current_time() - last_unresponsive_at\<close> of two floats is rounded to a float; that
  subtraction is the parameter \<open>float_sub\<close>. Python compares the resulting float with
  the integer 300 exactly.
\<close>

fun recently_unresponsive ::
  "(real \<Rightarrow> real \<Rightarrow> real) \<Rightarrow> (nat \<Rightarrow> real) \<Rightarrow> nat \<Rightarrow> lru \<Rightarrow> node_id list" where
  "recently_unresponsive float_sub clock i [] = []"
| "recently_unresponsive float_sub clock i ((n, last_unresponsive_at) # c) =
     (if float_sub (clock i) last_unresponsive_at < 300
      then n # recently_unresponsive float_sub clock (Suc i) c
      else recently_unresponsive float_sub clock (Suc i) c)"

definition init_lookup ::
  "(real \<Rightarrow> real \<Rightarrow> real) \<Rightarrow> (nat \<Rightarrow> real) \<Rightarrow> network \<Rightarrow> lru \<Rightarrow> lookup_state" where
  "init_lookup float_sub clock net c =
     \<lparr> queried_node_ids = {},
       unresponsive_node_ids =
         {local_node_id net} \<union> set (recently_unresponsive float_sub clock 0 c),
       received_node_ids = {},
       in_flight = {},
       unresponsive_cache = c,
       lookup_enr_db = enr_db net,
       channel = [] \<rparr>"

definition get_unqueried_node_ids :: "node_id \<Rightarrow> routing_table \<Rightarrow> lookup_state \<Rightarrow> node_id list" where
  "get_unqueried_node_ids target rt st =
     (let candidates = iter_closest_nodes target rt (received_node_ids st);
          responsive_candidates =
            filter (\<lambda>n. \<not> n \<in> unresponsive_node_ids st) candidates;
          closest_k_candidates = take (bucket_size rt) responsive_candidates;
          closest_k_unqueried =
            filter (\<lambda>n. \<not> (n \<in> queried_node_ids st \<or> n \<in> in_flight st)) closest_k_candidates
      in take 3 closest_k_unqueried)"

text \<open>The distance \<open>do_lookup\<close> asks \<open>node_id\<close> for.\<close>

definition lookup_distance :: "node_id \<Rightarrow> node_id \<Rightarrow> nat" where
  "lookup_distance n target = (if n = target then 0 else compute_log_distance n target)"

text \<open>The loop \<open>for enr in found_enrs: set_enr(enr)\<close>, \<open>OldSequenceNumber\<close> passed over.\<close>

fun store_enrs :: "(node_id \<rightharpoonup> enr) \<Rightarrow> enr list \<Rightarrow> (node_id \<rightharpoonup> enr)" where
  "store_enrs db [] = db"
| "store_enrs db (e # es) =
     store_enrs (case set_enr db e of Inl err \<Rightarrow> db | Inr db' \<Rightarrow> db') es"

text \<open>
  \<open>do_lookup\<close> for \<open>node_id\<close>, where \<open>outcome\<close> is what
  \<open>await network.find_nodes(node_id, distance)\<close> did: the ENRs it returned, or the
  exception raised there, \<open>Cancelled\<close> when the task was cancelled while waiting;
  \<open>now\<close> is the time of the failure. An exception that leaves \<open>do_lookup\<close> is \<open>Inl\<close>.
\<close>

definition do_lookup :: "lookup_state \<Rightarrow> node_id \<Rightarrow> error + enr list \<Rightarrow> real \<Rightarrow> (error + unit) \<times> lookup_state" where
  "do_lookup st n outcome now =
     (case outcome of
        Inl err \<Rightarrow>
          if err = TooSlowError \<or> err = MissingEndpointFields \<or> err = ValidationError then
            (Inr (), st\<lparr>unresponsive_node_ids := insert n (unresponsive_node_ids st),
                        unresponsive_cache := lru_set n now (unresponsive_cache st)\<rparr>)
          else if err = Cancelled then
            (Inl Cancelled, st\<lparr>unresponsive_node_ids := insert n (unresponsive_node_ids st)\<rparr>)
          else (Inl err, st)
      | Inr found_enrs \<Rightarrow>
          (let new_enrs = filter (\<lambda>e. node_id e \<notin> received_node_ids st) found_enrs in
           (Inr (), st\<lparr>lookup_enr_db := store_enrs (lookup_enr_db st) found_enrs,
                       received_node_ids := received_node_ids st \<union> node_id ` set new_enrs,
                       channel := channel st @ new_enrs\<rparr>)))"

text \<open>
  The first critical section of \<open>worker\<close>: pick the batch, mark it queried and in
  flight, and send the ENR of every id that was not received yet (a routing-table
  entry); \<open>get_enr\<close> raises \<open>KeyError\<close> for an id the database lacks.
\<close>

fun send_unreceived :: "lookup_state \<Rightarrow> node_id list \<Rightarrow> (error + unit) \<times> lookup_state" where
  "send_unreceived st [] = (Inr (), st)"
| "send_unreceived st (n # ns) =
     (if n \<notin> received_node_ids st then
        (case lookup_enr_db st n of
           None \<Rightarrow> (Inl KeyError, st)
         | Some e \<Rightarrow>
             send_unreceived (st\<lparr>received_node_ids := insert n (received_node_ids st),
                                 channel := channel st @ [e]\<rparr>) ns)
      else send_unreceived st ns)"

definition worker_select :: "node_id \<Rightarrow> routing_table \<Rightarrow> lookup_state
                               \<Rightarrow> (error + node_id list) \<times> lookup_state" where
  "worker_select target rt st =
     (let node_ids = get_unqueried_node_ids target rt st in
      if node_ids = [] then (Inr [], st)
      else
        (case send_unreceived (st\<lparr>queried_node_ids := queried_node_ids st \<union> set node_ids,
                                  in_flight := in_flight st \<union> set node_ids\<rparr>) node_ids of
           (Inl err, st1) \<Rightarrow> (Inl err, st1)
         | (Inr u, st1) \<Rightarrow> (Inr node_ids, st1)))"

text \<open>The last critical section of \<open>worker\<close>.\<close>

definition worker_release :: "lookup_state \<Rightarrow> node_id list \<Rightarrow> lookup_state" where
  "worker_release st node_ids = st\<lparr>in_flight := in_flight st - set node_ids\<rparr>"

text \<open>
  One invocation is a sequence of these steps, taken by the workers in any
  interleaving: a worker selects a batch, a lookup of a peer ends with an outcome at
  some time, a worker releases its batch.
\<close>

datatype lookup_event =
    Select
  | LookupDone node_id "error + enr list" real
  | Release "node_id list"

fun lookup_step :: "node_id \<Rightarrow> routing_table \<Rightarrow> lookup_state \<Rightarrow> lookup_event \<Rightarrow> lookup_state" where
  "lookup_step target rt st Select = snd (worker_select target rt st)"
| "lookup_step target rt st (LookupDone n outcome now) = snd (do_lookup st n outcome now)"
| "lookup_step target rt st (Release node_ids) = worker_release st node_ids"

definition run_lookup :: "node_id \<Rightarrow> routing_table \<Rightarrow> lookup_state \<Rightarrow> lookup_event list \<Rightarrow> lookup_state" where
  "run_lookup target rt st events = foldl (lookup_step target rt) st events"

section \<open>The local ENR (\<open>get_local_enr\<close> of \<open>ddht/app.py\<close>)\<close>

text \<open>
  The cryptography is the identity scheme's: the compressed public key of a private
  key, the signature of a sequence number and pairs under a private key, and the node
  id that the pairs of a record determine.
\<close>

record identity_scheme =
  to_compressed_bytes :: "bytes \<Rightarrow> bytes"
  create_enr_signature :: "nat \<Rightarrow> (bytes \<rightharpoonup> enr_value) \<Rightarrow> bytes \<Rightarrow> bytes"
  extract_node_id :: "(bytes \<rightharpoonup> enr_value) \<Rightarrow> node_id"

record unsigned_enr =
  unsigned_sequence_number :: nat
  unsigned_kv_pairs :: "bytes \<rightharpoonup> enr_value"

definition to_signed_enr :: "identity_scheme \<Rightarrow> unsigned_enr \<Rightarrow> bytes \<Rightarrow> enr" where
  "to_signed_enr scheme u private_key =
     \<lparr> node_id = extract_node_id scheme (unsigned_kv_pairs u),
       sequence_number = unsigned_sequence_number u,
       kv_pairs = unsigned_kv_pairs u,
       signature = create_enr_signature scheme (unsigned_sequence_number u)
                     (unsigned_kv_pairs u) private_key \<rparr>"

text \<open>A bytes literal such as \<open>b"udp"\<close>.\<close>

definition ascii :: "string \<Rightarrow> bytes" where
  "ascii s = map (\<lambda>c. of_nat (of_char c)) s"

text \<open>The items of the dict literal of \<open>minimal_enr\<close>, in its order.\<close>

definition minimal_items :: "identity_scheme \<Rightarrow> int \<Rightarrow> bytes \<Rightarrow> (bytes \<times> enr_value) list" where
  "minimal_items scheme port private_key =
     [(ascii ''id'', VBytes (ascii ''v4'')),
      (ascii ''secp256k1'', VBytes (to_compressed_bytes scheme private_key)),
      (ascii ''udp'', VInt port)]"

text \<open>\<open>toolz.merge(a, b)\<close>: the pairs of both dicts, those of \<open>b\<close> winning.\<close>

definition merge :: "('k \<rightharpoonup> 'v) \<Rightarrow> ('k \<rightharpoonup> 'v) \<Rightarrow> ('k \<rightharpoonup> 'v)" where
  "merge a b = a ++ b"

definition get_local_enr :: "identity_scheme \<Rightarrow> int \<Rightarrow> (node_id \<rightharpoonup> enr) \<Rightarrow> bytes \<Rightarrow> enr" where
  "get_local_enr scheme port node_db local_private_key =
     (let items = minimal_items scheme port local_private_key;
          minimal_enr = to_signed_enr scheme
            \<lparr> unsigned_sequence_number = 1, unsigned_kv_pairs = map_of items \<rparr>
            local_private_key;
          nid = node_id minimal_enr
      in case node_db nid of
           None \<Rightarrow> minimal_enr
         | Some base_enr \<Rightarrow>
             if list_ex (\<lambda>(key, val).
                   (case kv_pairs base_enr key of None \<Rightarrow> True | Some v \<Rightarrow> v \<noteq> val)) items
             then to_signed_enr scheme
                    \<lparr> unsigned_sequence_number = sequence_number base_enr + 1,
                      unsigned_kv_pairs = merge (kv_pairs base_enr) (kv_pairs minimal_enr) \<rparr>
                    local_private_key
             else base_enr)"

section \<open>Tags (\<open>ddht/v5/tags.py\<close>)\<close>

text \<open>
  Modelled from the spec: \<open>sxor\<close> of \<open>ddht/_utils.py\<close>, which is not among the
  sources. The spec says the tag is \<open>sha256(destination_node_id) XOR source_node_id\<close>:
  the bytewise exclusive or of two byte strings, pairing the bytes position by position.
\<close>

definition sxor :: "bytes \<Rightarrow> bytes \<Rightarrow> bytes" where
  "sxor s1 s2 = map (\<lambda>(x, y). x XOR y) (zip s1 s2)"

text \<open>
  \<open>hashlib.sha256(...).digest()\<close> is the standard library's: the functions take it as
  the parameter \<open>sha256\<close>.
\<close>

definition compute_tag :: "(bytes \<Rightarrow> bytes) \<Rightarrow> bytes \<Rightarrow> bytes \<Rightarrow> bytes" where
  "compute_tag sha256 source_node_id destination_node_id =
     (let destination_node_id_hash = sha256 destination_node_id;
          tag = sxor destination_node_id_hash source_node_id
      in tag)"

definition recover_source_id_from_tag :: "(bytes \<Rightarrow> bytes) \<Rightarrow> bytes \<Rightarrow> bytes \<Rightarrow> bytes" where
  "recover_source_id_from_tag sha256 tag destination_node_id =
     (let destination_node_id_hash = sha256 destination_node_id;
          source_node_id = sxor tag destination_node_id_hash
      in source_node_id)"

section \<open>The claims' own words, and sample inputs\<close>

text \<open>What \<open>find_nodes\<close> would return if, as the spec has it, the ENRs at a wrong
  distance were discarded and the others returned.\<close>

definition find_nodes_discarding :: "enr list list \<Rightarrow> node_id \<Rightarrow> nat list \<Rightarrow> enr list" where
  "find_nodes_discarding responses peer ds =
     filter (\<lambda>e. compute_log_distance peer (node_id e) \<in> set ds) (concat responses)"


text \<open>
  The batch as the spec computes it: all known nodes, the received ones and those of
  the routing table, in ascending XOR distance to the target; without the unresponsive
  ones; the closest \<open>bucket_size\<close> of those; without the ones queried or in flight; up
  to three of the rest.
\<close>

definition spec_batch :: "node_id \<Rightarrow> routing_table \<Rightarrow> lookup_state \<Rightarrow> node_id list" where
  "spec_batch target rt st =
     (let known = sort_key (compute_distance target)
                    (sorted_list_of_set (received_node_ids st \<union> set (routing_table_nodes rt)));
          responsive = filter (\<lambda>n. n \<notin> unresponsive_node_ids st) known;
          closest = take (bucket_size rt) responsive;
          unqueried = filter (\<lambda>n. n \<notin> queried_node_ids st \<union> in_flight st) closest
      in take 3 unqueried)"

text \<open>
  The peers whose lookup, among the events of an invocation, ended with an exception
  that satisfies \<open>P\<close>.
\<close>

fun failed_peers :: "(error \<Rightarrow> bool) \<Rightarrow> lookup_event list \<Rightarrow> node_id list" where
  "failed_peers P [] = []"
| "failed_peers P (LookupDone n (Inl err) now # events) =
     (if P err then n # failed_peers P events else failed_peers P events)"
| "failed_peers P (e # events) = failed_peers P events"

text \<open>The failures the spec names: timeout, validation error, missing endpoint.\<close>

definition spec_failure :: "error \<Rightarrow> bool" where
  "spec_failure err \<longleftrightarrow> err = TooSlowError \<or> err = ValidationError \<or> err = MissingEndpointFields"

text \<open>
  The unresponsive set as the spec has it, after the events of an invocation started
  with the shared cache \<open>c\<close>: the local node id, the peers that failed in the spec's
  sense, and the peers of the cache whose age the start of the invocation found below
  300 seconds.
\<close>

definition spec_unresponsive ::
  "(real \<Rightarrow> real \<Rightarrow> real) \<Rightarrow> (nat \<Rightarrow> real) \<Rightarrow> network \<Rightarrow> lru \<Rightarrow> lookup_event list
     \<Rightarrow> node_id set" where
  "spec_unresponsive float_sub clock net c events =
     {local_node_id net} \<union> set (failed_peers spec_failure events)
       \<union> set (recently_unresponsive float_sub clock 0 c)"


text \<open>Sample records, peers and states.\<close>

definition sample_enr :: "node_id \<Rightarrow> nat \<Rightarrow> enr" where
  "sample_enr n s = \<lparr> node_id = n, sequence_number = s, kv_pairs = Map.empty, signature = [] \<rparr>"

definition sample_endpoint :: endpoint where
  "sample_endpoint = ([127, 0, 0, 1], 30303)"

definition sample_env :: "(error + enr list list) \<Rightarrow> (error + bytes) \<Rightarrow> enr list \<Rightarrow> env" where
  "sample_env found answer streamed =
     \<lparr> client_find_nodes = (\<lambda>n ep ds rid. found),
       client_stream_find_nodes = (\<lambda>n ep ds rid. []),
       client_talk = (\<lambda>n ep protocol payload rid. answer),
       run_recursive_find_nodes = (\<lambda>net n. (streamed, net)),
       endpoint_from_enr = (\<lambda>e. Some sample_endpoint),
       reduce_enrs = (\<lambda>enrs. enrs) \<rparr>"

definition sample_network :: "(node_id \<rightharpoonup> enr) \<Rightarrow> network" where
  "sample_network db =
     \<lparr> local_node_id = 0,
       local_enr = sample_enr 0 1,
       enr_db = db,
       routing_table = \<lparr> center_node_id = 0, bucket_size = 16,
                         buckets = (\<lambda>i. if i = 1 then [3] else []) \<rparr>,
       talk_protocols = Map.empty,
       trace = [] \<rparr>"

definition sample_talk_request :: talk_request where
  "sample_talk_request =
     \<lparr> talk_sender_node_id = 5, talk_sender_endpoint = sample_endpoint,
       talk_request_id = [4], talk_protocol = [1], talk_payload = [2] \<rparr>"

definition sample_scheme :: identity_scheme where
  "sample_scheme =
     \<lparr> to_compressed_bytes = (\<lambda>k. 2 # k),
       create_enr_signature = (\<lambda>s kv k. of_nat s # k),
       extract_node_id = (\<lambda>kv. 7) \<rparr>"

text \<open>A stored local record with an \<open>ip\<close> pair, at sequence number 5.\<close>

definition sample_stored :: "int \<Rightarrow> enr" where
  "sample_stored port =
     \<lparr> node_id = 7, sequence_number = 5,
       kv_pairs = [ascii ''id'' \<mapsto> VBytes (ascii ''v4''),
                   ascii ''secp256k1'' \<mapsto> VBytes [2, 1],
                   ascii ''udp'' \<mapsto> VInt port,
                   ascii ''ip'' \<mapsto> VBytes [127, 0, 0, 1]],
       signature = [5, 1] \<rparr>"


text \<open>A lookup under way: ids 1 and 6 received, 3 in the routing table; 1 was queried,
  2 is unresponsive.\<close>

definition sample_lookup_state :: lookup_state where
  "sample_lookup_state =
     \<lparr> queried_node_ids = {1},
       unresponsive_node_ids = {0, 2},
       received_node_ids = {1, 6, 2},
       in_flight = {},
       unresponsive_cache = [],
       lookup_enr_db = [3 \<mapsto> sample_enr 3 1],
       channel = [] \<rparr>"

section \<open>Theorems\<close>

subsection \<open>Tags\<close>

lemma sxor_sxor_cancel:
  "length h = length s \<Longrightarrow> sxor (sxor h s) h = s"
proof (induction h arbitrary: s)
  case Nil
  then show ?case by (simp add: sxor_def)
next
  case (Cons a h)
  then obtain b s' where s: "s = b # s'" by (cases s) auto
  with Cons.prems have len: "length h = length s'" by simp
  have "(a XOR b) XOR a = b"
    by (simp add: xor.commute xor.left_commute)
  with Cons.IH [OF len] show ?case
    by (simp add: s sxor_def)
qed

text \<open>
  C7. For every pair of 32-byte node ids \<open>(src, dst)\<close>, recovering the source from the
  tag computed for \<open>(src, dst)\<close> gives \<open>src\<close> back: XORing the tag again with the
  32-byte digest \<open>sha256(dst)\<close> inverts it exactly.
\<close>

theorem tag_round_trip:
  assumes "length src = 32" and "length dst = 32" and "length (sha256 dst) = 32"
  shows "recover_source_id_from_tag sha256 (compute_tag sha256 src dst) dst = src"
  using assms
  by (simp add: recover_source_id_from_tag_def compute_tag_def sxor_sxor_cancel)

theorem tag_round_trip_witness:
  "length (replicate 32 (7 :: 8 word)) = 32 \<and> length (replicate 32 (9 :: 8 word)) = 32
   \<and> length ((\<lambda>b. map (\<lambda>x. x + 1) b) (replicate 32 (9 :: 8 word))) = 32
   \<and> recover_source_id_from_tag (\<lambda>b. map (\<lambda>x. x + 1) b)
        (compute_tag (\<lambda>b. map (\<lambda>x. x + 1) b) (replicate 32 7) (replicate 32 9))
        (replicate 32 9) = replicate 32 7"
  using tag_round_trip [of "replicate 32 (7 :: 8 word)" "replicate 32 (9 :: 8 word)"
                           "\<lambda>b. map (\<lambda>x. x + 1) b"]
  by simp

subsection \<open>\<open>Network.find_nodes\<close>\<close>

lemma validate_found_nodes_distances_eq:
  "validate_found_nodes_distances enrs peer ds =
     (if \<forall>e \<in> set enrs. compute_log_distance peer (node_id e) \<in> set ds
      then None else Some ValidationError)"
  by (induction enrs) auto

lemma validate_responses_eq:
  "validate_responses rs peer ds =
     (if \<forall>e \<in> set (concat rs). compute_log_distance peer (node_id e) \<in> set ds
      then None else Some ValidationError)"
  by (induction rs) (auto simp: validate_found_nodes_distances_eq)

lemma find_nodes_resolved:
  assumes "ds \<noteq> []" and "resolve_endpoint ev net n endpoint = (Inr ep, net1)"
  shows "find_nodes ev net n ds endpoint rid =
     (case client_find_nodes ev n ep ds rid of
        Inl err \<Rightarrow> (Inl err, log_action (SendFindNode n ep ds rid) net1)
      | Inr responses \<Rightarrow>
          (if \<forall>e \<in> set (concat responses). compute_log_distance n (node_id e) \<in> set ds
           then (Inr (concat responses), log_action (SendFindNode n ep ds rid) net1)
           else (Inl ValidationError, log_action (SendFindNode n ep ds rid) net1)))"
proof -
  from assms(2)
  have "(case endpoint of None \<Rightarrow> endpoint_for_node_id ev net n | Some ep \<Rightarrow> (Inr ep, net))
          = (Inr ep, net1)"
    by (simp add: resolve_endpoint_def)
  with assms(1) show ?thesis
    by (simp add: find_nodes.simps [of ev net n ds endpoint rid] Let_def validate_responses_eq
             split: sum.splits)
qed

lemma find_nodes_returned_valid:
  assumes "find_nodes ev net n ds endpoint rid = (Inr enrs, net')"
  shows "\<forall>e \<in> set enrs. compute_log_distance n (node_id e) \<in> set ds"
proof -
  from assms have ne: "ds \<noteq> []"
    by (auto simp: find_nodes.simps)
  obtain r net1 where res: "resolve_endpoint ev net n endpoint = (r, net1)"
    by (cases "resolve_endpoint ev net n endpoint")
  show ?thesis
  proof (cases r)
    case (Inl err)
    with assms ne res show ?thesis
      by (simp add: find_nodes.simps resolve_endpoint_def)
  next
    case (Inr ep)
    with res have "resolve_endpoint ev net n endpoint = (Inr ep, net1)" by simp
    from find_nodes_resolved [OF ne this, of rid] assms show ?thesis
      by (auto split: sum.splits if_splits)
  qed
qed

lemma sample_log_distances:
  "compute_log_distance 0 1 = 1" "compute_log_distance 0 2 = 2" "compute_log_distance 0 3 = 2"
  by (simp_all add: compute_log_distance_def compute_distance_def compute_floorlog)

text \<open>
  C1, as the code has it. Every ENR that \<open>find_nodes(node_id, distances)\<close> returns is
  at one of the requested log-distances from \<open>node_id\<close>. Nothing is discarded: once the
  endpoint is known and the peer has answered, the call returns the ENRs of all the
  responses when every one of them is at a requested distance, and raises
  \<open>ValidationError\<close>, returning none, as soon as one is not.
\<close>

theorem find_nodes_all_or_nothing:
  "(\<forall>enrs net'. find_nodes ev net n ds endpoint rid = (Inr enrs, net')
       \<longrightarrow> (\<forall>e \<in> set enrs. compute_log_distance n (node_id e) \<in> set ds))
   \<and> (ds \<noteq> [] \<and> resolve_endpoint ev net n endpoint = (Inr ep, net1)
        \<and> client_find_nodes ev n ep ds rid = Inr responses
      \<longrightarrow> fst (find_nodes ev net n ds endpoint rid) =
            (if \<forall>e \<in> set (concat responses). compute_log_distance n (node_id e) \<in> set ds
             then Inr (concat responses) else Inl ValidationError))"
proof (intro conjI allI impI)
  fix enrs net'
  assume "find_nodes ev net n ds endpoint rid = (Inr enrs, net')"
  then show "\<forall>e \<in> set enrs. compute_log_distance n (node_id e) \<in> set ds"
    by (rule find_nodes_returned_valid)
next
  assume h: "ds \<noteq> [] \<and> resolve_endpoint ev net n endpoint = (Inr ep, net1)
        \<and> client_find_nodes ev n ep ds rid = Inr responses"
  then have "ds \<noteq> []" and "resolve_endpoint ev net n endpoint = (Inr ep, net1)" by simp_all
  from find_nodes_resolved [OF this, of rid] h
  show "fst (find_nodes ev net n ds endpoint rid) =
            (if \<forall>e \<in> set (concat responses). compute_log_distance n (node_id e) \<in> set ds
             then Inr (concat responses) else Inl ValidationError)"
    by simp
qed

theorem find_nodes_all_or_nothing_witness:
  "fst (find_nodes (sample_env (Inr [[sample_enr 1 1], [sample_enr 3 1]]) (Inr []) [])
          (sample_network Map.empty) 0 [1, 2] (Some sample_endpoint) None)
     = Inr [sample_enr 1 1, sample_enr 3 1]
   \<and> compute_log_distance 0 (node_id (sample_enr 1 1)) = 1
   \<and> compute_log_distance 0 (node_id (sample_enr 3 1)) = 2
   \<and> fst (find_nodes (sample_env (Inr [[sample_enr 1 1, sample_enr 2 1]]) (Inr []) [])
             (sample_network Map.empty) 0 [1] (Some sample_endpoint) None)
       = Inl ValidationError"
  using find_nodes_all_or_nothing [of "sample_env (Inr [[sample_enr 1 1], [sample_enr 3 1]]) (Inr []) []"
          "sample_network Map.empty" 0 "[1, 2]" "Some sample_endpoint" None sample_endpoint
          "sample_network Map.empty" "[[sample_enr 1 1], [sample_enr 3 1]]"]
        find_nodes_all_or_nothing [of "sample_env (Inr [[sample_enr 1 1, sample_enr 2 1]]) (Inr []) []"
          "sample_network Map.empty" 0 "[1]" "Some sample_endpoint" None sample_endpoint
          "sample_network Map.empty" "[[sample_enr 1 1, sample_enr 2 1]]"]
  by (simp add: resolve_endpoint_def sample_env_def sample_enr_def sample_log_distances)

text \<open>
  C1 as the spec words it fails: a response holding one ENR at the requested distance
  and one at another distance does not yield the first one; the call raises
  \<open>ValidationError\<close>.
\<close>

theorem find_nodes_discarding_counterexample:
  "find_nodes_discarding [[sample_enr 1 1, sample_enr 2 1]] 0 [1] = [sample_enr 1 1]
   \<and> fst (find_nodes (sample_env (Inr [[sample_enr 1 1, sample_enr 2 1]]) (Inr []) [])
             (sample_network Map.empty) 0 [1] (Some sample_endpoint) None)
       = Inl ValidationError"
  by (simp add: find_nodes_discarding_def find_nodes.simps sample_env_def sample_enr_def
        sample_log_distances log_action_def)

text \<open>
  C9. With no distances, \<open>find_nodes\<close> and the entry of
  \<open>common_network_stream_find_nodes\<close> raise \<open>TypeError\<close> and leave the state, its
  trace of requests included, as it was, whatever the endpoint argument is.
\<close>

theorem empty_distances_type_error:
  "find_nodes ev net n [] endpoint rid = (Inl TypeError, net)
   \<and> common_network_stream_find_nodes ev net n endpoint [] rid = (Inl TypeError, net)"
  by (simp add: find_nodes.simps common_network_stream_find_nodes_def)

subsection \<open>\<open>Network.lookup_enr\<close>\<close>

text \<open>
  C10. \<open>lookup_enr\<close> called with the local node id raises, whatever the sequence number
  and the endpoint, and leaves the state, database and trace, untouched: it never
  returns an ENR for the local node.
\<close>

theorem lookup_enr_local_raises:
  "lookup_enr ev net (local_node_id net) enr_seq endpoint = (Inl Exception, net)"
  by (simp add: lookup_enr.simps)

subsection \<open>TALKREQ and TALKRESP\<close>

text \<open>
  C8. When the endpoint is known and the peer answers with a TALKRESP, \<open>talk\<close> raises
  \<open>ProtocolNotSupported\<close> exactly when the payload of the answer is empty, and
  returns the payload otherwise. An inbound TALKREQ for a protocol without a registered
  handler is answered with an empty payload under the request's id; one for a
  registered protocol gets no such answer.
\<close>

theorem talk_protocol_not_supported:
  "(resolve_endpoint ev net n endpoint = (Inr ep, net1)
      \<and> client_talk ev n ep protocol payload rid = Inr response_payload
    \<longrightarrow> fst (talk ev net n protocol payload endpoint rid) =
          (if response_payload = [] then Inl (ProtocolNotSupported protocol)
           else Inr response_payload))
   \<and> (talk_protocol request \<notin> dom (talk_protocols net) \<longrightarrow>
        handle_unhandled_talk_requests net request =
          net\<lparr>trace := trace net @ [SendTalkResponse (talk_sender_node_id request)
                     (talk_sender_endpoint request) [] (talk_request_id request)]\<rparr>)
   \<and> (talk_protocol request \<in> dom (talk_protocols net) \<longrightarrow>
        handle_unhandled_talk_requests net request = net)"
  by (simp add: talk_def handle_unhandled_talk_requests_def log_action_def Let_def)

theorem talk_protocol_not_supported_witness:
  "fst (talk (sample_env (Inr []) (Inr []) []) (sample_network Map.empty) 5 [1] [2]
          (Some sample_endpoint) None) = Inl (ProtocolNotSupported [1])
   \<and> fst (talk (sample_env (Inr []) (Inr [9, 8]) [])
          ((sample_network Map.empty)\<lparr>talk_protocols := [[1] \<mapsto> 0]\<rparr>) 5 [1] [2]
          (Some sample_endpoint) None) = Inr [9, 8]
   \<and> trace (handle_unhandled_talk_requests (sample_network Map.empty) sample_talk_request)
        = [SendTalkResponse 5 sample_endpoint [] [4]]
   \<and> handle_unhandled_talk_requests
        ((sample_network Map.empty)\<lparr>talk_protocols := [[1] \<mapsto> 0]\<rparr>) sample_talk_request
        = (sample_network Map.empty)\<lparr>talk_protocols := [[1] \<mapsto> 0]\<rparr>"
  using talk_protocol_not_supported [where ev = "sample_env (Inr []) (Inr []) []"
          and net = "sample_network Map.empty" and n = 5 and endpoint = "Some sample_endpoint"
          and ep = sample_endpoint and ?net1.0 = "sample_network Map.empty"
          and protocol = "[1]" and payload = "[2]" and rid = None and response_payload = "[]"
          and request = sample_talk_request]
        talk_protocol_not_supported [where ev = "sample_env (Inr []) (Inr [9, 8]) []"
          and net = "(sample_network Map.empty)\<lparr>talk_protocols := [[1] \<mapsto> 0]\<rparr>"
          and n = 5 and endpoint = "Some sample_endpoint" and ep = sample_endpoint
          and ?net1.0 = "(sample_network Map.empty)\<lparr>talk_protocols := [[1] \<mapsto> 0]\<rparr>"
          and protocol = "[1]" and payload = "[2]" and rid = None and response_payload = "[9, 8]"
          and request = sample_talk_request]
  by (simp add: resolve_endpoint_def sample_env_def sample_network_def sample_talk_request_def)

subsection \<open>\<open>get_local_enr\<close>\<close>

text \<open>
  C6. Let \<open>nid\<close> be the node id of the minimal record for the local key and port.
  If the database holds a record for \<open>nid\<close> that has every minimal pair with the same
  value, \<open>get_local_enr\<close> returns that record as it is. If the database holds no
  record for \<open>nid\<close>, it returns the minimal record, signed, with sequence number 1.
  Otherwise it returns a record signed anew whose sequence number is the stored one
  plus one and whose pairs are the stored pairs overridden by the minimal pairs.
\<close>

theorem get_local_enr_reuse_or_bump:
  "(node_db (extract_node_id scheme (map_of (minimal_items scheme port pk))) = Some base
      \<and> (\<forall>(k, v) \<in> set (minimal_items scheme port pk). kv_pairs base k = Some v)
    \<longrightarrow> get_local_enr scheme port node_db pk = base)
   \<and> (node_db (extract_node_id scheme (map_of (minimal_items scheme port pk))) = None
    \<longrightarrow> get_local_enr scheme port node_db pk =
          \<lparr> node_id = extract_node_id scheme (map_of (minimal_items scheme port pk)),
            sequence_number = 1,
            kv_pairs = map_of (minimal_items scheme port pk),
            signature = create_enr_signature scheme 1 (map_of (minimal_items scheme port pk)) pk \<rparr>)
   \<and> (node_db (extract_node_id scheme (map_of (minimal_items scheme port pk))) = Some base
      \<and> \<not> (\<forall>(k, v) \<in> set (minimal_items scheme port pk). kv_pairs base k = Some v)
    \<longrightarrow> get_local_enr scheme port node_db pk =
          \<lparr> node_id = extract_node_id scheme (kv_pairs base ++ map_of (minimal_items scheme port pk)),
            sequence_number = sequence_number base + 1,
            kv_pairs = kv_pairs base ++ map_of (minimal_items scheme port pk),
            signature = create_enr_signature scheme (sequence_number base + 1)
                          (kv_pairs base ++ map_of (minimal_items scheme port pk)) pk \<rparr>)"
  by (auto simp: get_local_enr_def to_signed_enr_def Let_def merge_def list_ex_iff
           split: option.splits)

theorem get_local_enr_reuse_or_bump_witness:
  "get_local_enr sample_scheme 30303 [7 \<mapsto> sample_stored 30303] [1] = sample_stored 30303
   \<and> sequence_number (get_local_enr sample_scheme 30303 Map.empty [1]) = 1
   \<and> sequence_number (get_local_enr sample_scheme 30303 [7 \<mapsto> sample_stored 30304] [1]) = 6
   \<and> kv_pairs (get_local_enr sample_scheme 30303 [7 \<mapsto> sample_stored 30304] [1]) (ascii ''udp'')
        = Some (VInt 30303)
   \<and> kv_pairs (get_local_enr sample_scheme 30303 [7 \<mapsto> sample_stored 30304] [1]) (ascii ''ip'')
        = Some (VBytes [127, 0, 0, 1])"
  using get_local_enr_reuse_or_bump [where node_db = "[7 \<mapsto> sample_stored 30303]"
          and scheme = sample_scheme and port = 30303 and pk = "[1]" and base = "sample_stored 30303"]
        get_local_enr_reuse_or_bump [where node_db = Map.empty
          and scheme = sample_scheme and port = 30303 and pk = "[1]" and base = "sample_stored 30303"]
        get_local_enr_reuse_or_bump [where node_db = "[7 \<mapsto> sample_stored 30304]"
          and scheme = sample_scheme and port = 30303 and pk = "[1]" and base = "sample_stored 30304"]
  by (simp add: sample_scheme_def sample_stored_def minimal_items_def ascii_def)

subsection \<open>Serving FINDNODE\<close>







subsection \<open>The batch of the recursive find-nodes engine\<close>

lemma iter_closest_nodes_set:
  "set (iter_closest_nodes target rt seen) = set (routing_table_nodes rt) \<union> seen"
  by (simp add: iter_closest_nodes_def)

lemma iter_closest_nodes_distinct:
  "distinct (iter_closest_nodes target rt seen)"
  by (simp add: iter_closest_nodes_def)

lemma iter_closest_nodes_sorted:
  "sorted (map (compute_distance target) (iter_closest_nodes target rt seen))"
  by (simp add: iter_closest_nodes_def)

lemma sorted_map_filter:
  "sorted (map f xs) \<Longrightarrow> sorted (map f (filter P xs))"
  by (induction xs) auto

lemma sorted_map_take:
  "sorted (map f xs) \<Longrightarrow> sorted (map f (take k xs))"
  by (simp add: take_map [symmetric] sorted_wrt_take)

lemma get_unqueried_node_ids_subset:
  "set (get_unqueried_node_ids target rt st)
     \<subseteq> (set (routing_table_nodes rt) \<union> received_node_ids st)
         - unresponsive_node_ids st - queried_node_ids st - in_flight st"
proof
  fix n
  assume "n \<in> set (get_unqueried_node_ids target rt st)"
  then have a: "n \<in> set (filter (\<lambda>n. \<not> (n \<in> queried_node_ids st \<or> n \<in> in_flight st))
                   (take (bucket_size rt)
                      (filter (\<lambda>n. \<not> n \<in> unresponsive_node_ids st)
                         (iter_closest_nodes target rt (received_node_ids st)))))"
    by (auto simp: get_unqueried_node_ids_def Let_def dest: in_set_takeD)
  then have q: "n \<notin> queried_node_ids st" "n \<notin> in_flight st" by auto
  from a have "n \<in> set (filter (\<lambda>n. \<not> n \<in> unresponsive_node_ids st)
                         (iter_closest_nodes target rt (received_node_ids st)))"
    by (auto dest: in_set_takeD)
  then have "n \<notin> unresponsive_node_ids st"
    and "n \<in> set (routing_table_nodes rt) \<union> received_node_ids st"
    by (auto simp: iter_closest_nodes_set)
  with q show "n \<in> (set (routing_table_nodes rt) \<union> received_node_ids st)
         - unresponsive_node_ids st - queried_node_ids st - in_flight st"
    by simp
qed

text \<open>
  C4. The batch that \<open>get_unqueried_node_ids\<close> selects is the one the spec describes:
  the known nodes in ascending XOR distance to the target, without the unresponsive
  ones, cut to the closest \<open>bucket_size\<close>, without the queried and in-flight ones, cut
  to three. So the batch has at most three ids, holds no unresponsive, queried or
  in-flight id, holds only known ids, each once, and lists them closest first.
\<close>

theorem get_unqueried_node_ids_batch:
  "get_unqueried_node_ids target rt st = spec_batch target rt st
   \<and> length (get_unqueried_node_ids target rt st) \<le> 3
   \<and> set (get_unqueried_node_ids target rt st) \<inter> unresponsive_node_ids st = {}
   \<and> set (get_unqueried_node_ids target rt st) \<inter> queried_node_ids st = {}
   \<and> set (get_unqueried_node_ids target rt st) \<inter> in_flight st = {}
   \<and> set (get_unqueried_node_ids target rt st)
        \<subseteq> received_node_ids st \<union> set (routing_table_nodes rt)
   \<and> distinct (get_unqueried_node_ids target rt st)
   \<and> sorted (map (compute_distance target) (get_unqueried_node_ids target rt st))"
proof (intro conjI)
  show "get_unqueried_node_ids target rt st = spec_batch target rt st"
    by (simp add: get_unqueried_node_ids_def spec_batch_def iter_closest_nodes_def Let_def
          Un_commute [of "set (routing_table_nodes rt)"])
  show "length (get_unqueried_node_ids target rt st) \<le> 3"
    by (simp add: get_unqueried_node_ids_def Let_def)
  show "set (get_unqueried_node_ids target rt st) \<inter> unresponsive_node_ids st = {}"
    using get_unqueried_node_ids_subset [of target rt st] by blast
  show "set (get_unqueried_node_ids target rt st) \<inter> queried_node_ids st = {}"
    using get_unqueried_node_ids_subset [of target rt st] by blast
  show "set (get_unqueried_node_ids target rt st) \<inter> in_flight st = {}"
    using get_unqueried_node_ids_subset [of target rt st] by blast
  show "set (get_unqueried_node_ids target rt st)
        \<subseteq> received_node_ids st \<union> set (routing_table_nodes rt)"
    using get_unqueried_node_ids_subset [of target rt st] by blast
  show "distinct (get_unqueried_node_ids target rt st)"
    by (simp add: get_unqueried_node_ids_def Let_def iter_closest_nodes_distinct)
  show "sorted (map (compute_distance target) (get_unqueried_node_ids target rt st))"
    by (simp add: get_unqueried_node_ids_def Let_def iter_closest_nodes_sorted
          sorted_map_filter sorted_map_take)
qed

lemma sample_batch:
  "get_unqueried_node_ids 7 (routing_table (sample_network Map.empty)) sample_lookup_state = [6, 3]"
  by code_simp

theorem get_unqueried_node_ids_batch_witness:
  "get_unqueried_node_ids 7 (routing_table (sample_network Map.empty)) sample_lookup_state = [6, 3]
   \<and> spec_batch 7 (routing_table (sample_network Map.empty)) sample_lookup_state = [6, 3]
   \<and> set [6, 3] \<inter> unresponsive_node_ids sample_lookup_state = {}
   \<and> set [6, 3] \<inter> queried_node_ids sample_lookup_state = {}"
proof -
  have b: "get_unqueried_node_ids 7 (routing_table (sample_network Map.empty)) sample_lookup_state
             = [6, 3]"
    by (rule sample_batch)
  from get_unqueried_node_ids_batch [of 7 "routing_table (sample_network Map.empty)"
          sample_lookup_state]
  have "get_unqueried_node_ids 7 (routing_table (sample_network Map.empty)) sample_lookup_state
          = spec_batch 7 (routing_table (sample_network Map.empty)) sample_lookup_state"
    by (rule conjunct1)
  with b have s: "spec_batch 7 (routing_table (sample_network Map.empty)) sample_lookup_state
          = [6, 3]"
    by simp
  show ?thesis
    using b s by (simp add: sample_lookup_state_def)
qed

subsection \<open>The unresponsive set of the recursive find-nodes engine\<close>

lemma send_unreceived_unresponsive:
  "unresponsive_node_ids (snd (send_unreceived st ns)) = unresponsive_node_ids st"
  by (induction st ns rule: send_unreceived.induct) (auto split: option.splits)

lemma worker_select_unresponsive:
  "unresponsive_node_ids (snd (worker_select target rt st)) = unresponsive_node_ids st"
proof -
  let ?st = "st\<lparr>queried_node_ids := queried_node_ids st \<union> set (get_unqueried_node_ids target rt st),
                in_flight := in_flight st \<union> set (get_unqueried_node_ids target rt st)\<rparr>"
  have "unresponsive_node_ids (snd (send_unreceived ?st (get_unqueried_node_ids target rt st)))
          = unresponsive_node_ids ?st"
    by (rule send_unreceived_unresponsive)
  then show ?thesis
    by (cases "send_unreceived ?st (get_unqueried_node_ids target rt st)")
       (auto simp: worker_select_def Let_def split: sum.splits)
qed

lemma send_unreceived_cache:
  "unresponsive_cache (snd (send_unreceived st ns)) = unresponsive_cache st"
  by (induction st ns rule: send_unreceived.induct) (auto split: option.splits)

lemma worker_select_cache:
  "unresponsive_cache (snd (worker_select target rt st)) = unresponsive_cache st"
proof -
  let ?st = "st\<lparr>queried_node_ids := queried_node_ids st \<union> set (get_unqueried_node_ids target rt st),
                in_flight := in_flight st \<union> set (get_unqueried_node_ids target rt st)\<rparr>"
  have "unresponsive_cache (snd (send_unreceived ?st (get_unqueried_node_ids target rt st)))
          = unresponsive_cache ?st"
    by (rule send_unreceived_cache)
  then show ?thesis
    by (cases "send_unreceived ?st (get_unqueried_node_ids target rt st)")
       (auto simp: worker_select_def Let_def split: sum.splits)
qed

lemma do_lookup_unresponsive:
  "unresponsive_node_ids (snd (do_lookup st n outcome now)) =
     unresponsive_node_ids st
       \<union> set (failed_peers (\<lambda>err. spec_failure err \<or> err = Cancelled) [LookupDone n outcome now])"
  by (cases outcome) (auto simp: do_lookup_def spec_failure_def Let_def)

lemma failed_peers_append:
  "failed_peers P (xs @ ys) = failed_peers P xs @ failed_peers P ys"
  by (induction P xs rule: failed_peers.induct) auto

lemma lookup_step_unresponsive:
  "unresponsive_node_ids (lookup_step target rt st e) =
     unresponsive_node_ids st
       \<union> set (failed_peers (\<lambda>err. spec_failure err \<or> err = Cancelled) [e])"
proof (cases e)
  case Select
  then show ?thesis by (simp add: worker_select_unresponsive)
next
  case (LookupDone n outcome now)
  then show ?thesis by (simp only: lookup_step.simps do_lookup_unresponsive)
next
  case (Release ns)
  then show ?thesis by (simp add: worker_release_def)
qed

lemma run_lookup_unresponsive:
  "unresponsive_node_ids (run_lookup target rt st events) =
     unresponsive_node_ids st
       \<union> set (failed_peers (\<lambda>err. spec_failure err \<or> err = Cancelled) events)"
proof (induction events arbitrary: st)
  case Nil
  then show ?case by (simp add: run_lookup_def)
next
  case (Cons e events)
  have "run_lookup target rt st (e # events) = run_lookup target rt (lookup_step target rt st e) events"
    by (simp add: run_lookup_def)
  moreover have "failed_peers (\<lambda>err. spec_failure err \<or> err = Cancelled) (e # events)
      = failed_peers (\<lambda>err. spec_failure err \<or> err = Cancelled) [e]
        @ failed_peers (\<lambda>err. spec_failure err \<or> err = Cancelled) events"
    using failed_peers_append [of _ "[e]" events] by simp
  ultimately show ?case
    using Cons.IH [of "lookup_step target rt st e"] lookup_step_unresponsive [of target rt st e]
    by (simp add: Un_assoc)
qed

lemma lru_set_lookup: "map_of (lru_set n now c) n = Some now"
  by (simp add: lru_set_def)

lemma recently_unresponsive_iff:
  "n \<in> set (recently_unresponsive float_sub clock i c) \<longleftrightarrow>
     (\<exists>j < length c. fst (c ! j) = n \<and> float_sub (clock (i + j)) (snd (c ! j)) < 300)"
proof (induction c arbitrary: i)
  case Nil
  then show ?case by simp
next
  case (Cons x c)
  obtain m t where x: "x = (m, t)" by (cases x)
  have split: "(\<exists>j < length (x # c). P j) \<longleftrightarrow> P 0 \<or> (\<exists>j < length c. P (Suc j))" for P
    by (auto simp: less_Suc_eq_0_disj)
  show ?case
    unfolding split
    using Cons.IH [of "Suc i"] by (auto simp: x)
qed

lemma recently_unresponsive_set:
  "set (recently_unresponsive float_sub clock 0 c)
     = {p. \<exists>j < length c. fst (c ! j) = p \<and> float_sub (clock j) (snd (c ! j)) < 300}"
  using recently_unresponsive_iff [of _ float_sub clock 0 c] by auto

text \<open>
  Where the floating-point difference comes out as exactly 300, as it does for the
  readings 300.001 and 0.001, the entry is not taken, though the exact difference of
  the two times is below 300.
\<close>

lemma recently_unresponsive_rounded:
  "float_sub now last_unresponsive_at = 300
     \<Longrightarrow> recently_unresponsive float_sub (\<lambda>i. now) 0 [(p, last_unresponsive_at)] = []"
  by simp

text \<open>
  C5, as the code has it. After any sequence of steps of one invocation, the
  unresponsive set holds exactly the local node id, the peers of the shared cache whose
  timestamp the start of the invocation found less than 300 seconds old, and the peers
  whose lookup ended with a timeout, a validation error, a missing endpoint or a
  cancellation. The age test is the code's: for the entry at position \<open>j\<close> of the
  cache, the floating-point difference of the clock reading taken for that entry and
  the entry's timestamp is below 300. A peer that fails with a timeout, a validation
  error or a missing endpoint is recorded in the shared cache with the time of the
  failure; a peer whose lookup is cancelled joins the unresponsive set and leaves the
  cache as it was.
\<close>

theorem unresponsive_set_invariant:
  "unresponsive_node_ids (run_lookup target rt (init_lookup float_sub clock net c) events) =
     {local_node_id net}
       \<union> {p. \<exists>j < length c. fst (c ! j) = p \<and> float_sub (clock j) (snd (c ! j)) < 300}
       \<union> set (failed_peers (\<lambda>err. spec_failure err \<or> err = Cancelled) events)
   \<and> (spec_failure err \<longrightarrow>
        map_of (unresponsive_cache (snd (do_lookup st n (Inl err) t))) n = Some t
        \<and> n \<in> unresponsive_node_ids (snd (do_lookup st n (Inl err) t)))
   \<and> unresponsive_cache (snd (do_lookup st n (Inl Cancelled) t)) = unresponsive_cache st
   \<and> n \<in> unresponsive_node_ids (snd (do_lookup st n (Inl Cancelled) t))"
proof (intro conjI impI)
  have "set (recently_unresponsive float_sub clock 0 c)
          = {p. \<exists>j < length c. fst (c ! j) = p \<and> float_sub (clock j) (snd (c ! j)) < 300}"
    by (rule recently_unresponsive_set)
  then show "unresponsive_node_ids (run_lookup target rt (init_lookup float_sub clock net c) events) =
     {local_node_id net}
       \<union> {p. \<exists>j < length c. fst (c ! j) = p \<and> float_sub (clock j) (snd (c ! j)) < 300}
       \<union> set (failed_peers (\<lambda>err. spec_failure err \<or> err = Cancelled) events)"
    by (simp add: run_lookup_unresponsive init_lookup_def)
next
  assume "spec_failure err"
  then show "map_of (unresponsive_cache (snd (do_lookup st n (Inl err) t))) n = Some t"
    by (auto simp: do_lookup_def spec_failure_def lru_set_lookup)
next
  assume "spec_failure err"
  then show "n \<in> unresponsive_node_ids (snd (do_lookup st n (Inl err) t))"
    by (auto simp: do_lookup_def spec_failure_def)
next
  show "unresponsive_cache (snd (do_lookup st n (Inl Cancelled) t)) = unresponsive_cache st"
    by (simp add: do_lookup_def)
next
  show "n \<in> unresponsive_node_ids (snd (do_lookup st n (Inl Cancelled) t))"
    by (simp add: do_lookup_def)
qed

text \<open>
  A run with whole-second times, on which the floating-point subtraction is exact:
  peer 8, 100 seconds old, is taken from the cache; peer 9, exactly 300 seconds old,
  is not.
\<close>

lemma sample_recently_unresponsive:
  "recently_unresponsive (\<lambda>a b. a - b) (\<lambda>i. 0) 0 [(8, - 100), (9, - 300)] = [8]"
  by simp

theorem unresponsive_set_invariant_witness:
  "unresponsive_node_ids
     (run_lookup 7 (routing_table (sample_network [3 \<mapsto> sample_enr 3 1]))
        (init_lookup (\<lambda>a b. a - b) (\<lambda>i. 0) (sample_network [3 \<mapsto> sample_enr 3 1])
           [(8, - 100), (9, - 300)])
        [Select, LookupDone 3 (Inl TooSlowError) 10, Release [3]]) = {0, 8, 3}
   \<and> spec_failure TooSlowError
   \<and> map_of (unresponsive_cache (snd (do_lookup sample_lookup_state 3 (Inl TooSlowError) 10))) 3
       = Some 10
   \<and> unresponsive_cache (snd (do_lookup sample_lookup_state 3 (Inl Cancelled) 10)) = []
   \<and> 3 \<in> unresponsive_node_ids (snd (do_lookup sample_lookup_state 3 (Inl Cancelled) 10))"
  using unresponsive_set_invariant [where target = 7
          and rt = "routing_table (sample_network [3 \<mapsto> sample_enr 3 1])"
          and net = "sample_network [3 \<mapsto> sample_enr 3 1]"
          and float_sub = "\<lambda>a b. a - b" and clock = "\<lambda>i. 0"
          and c = "[(8, - 100), (9, - 300)]"
          and events = "[Select, LookupDone 3 (Inl TooSlowError) 10, Release [3]]"
          and err = TooSlowError and st = sample_lookup_state and n = 3 and t = 10]
  unfolding recently_unresponsive_set [of "\<lambda>a b. a - b" "\<lambda>i. 0" "[(8, - 100), (9, - 300)]",
              symmetric]
            sample_recently_unresponsive
  by (auto simp: spec_failure_def sample_network_def sample_lookup_state_def)

lemma sample_first_batch:
  "get_unqueried_node_ids 7 (routing_table (sample_network [3 \<mapsto> sample_enr 3 1]))
     (init_lookup (\<lambda>a b. a - b) (\<lambda>i. 0) (sample_network [3 \<mapsto> sample_enr 3 1]) []) = [3]"
  by code_simp

text \<open>
  C5 as the spec words it fails. The engine starts with an empty cache, a worker
  selects peer 3 from the routing table, and the lookup of peer 3 is cancelled: peer 3
  is in the unresponsive set, though it is not the local node, was not in the cache and
  did not fail with a timeout, a validation error or a missing endpoint; and the shared
  cache does not record it.
\<close>

theorem unresponsive_set_counterexample:
  "get_unqueried_node_ids 7 (routing_table (sample_network [3 \<mapsto> sample_enr 3 1]))
     (init_lookup (\<lambda>a b. a - b) (\<lambda>i. 0) (sample_network [3 \<mapsto> sample_enr 3 1]) []) = [3]
   \<and> unresponsive_node_ids
       (run_lookup 7 (routing_table (sample_network [3 \<mapsto> sample_enr 3 1]))
          (init_lookup (\<lambda>a b. a - b) (\<lambda>i. 0) (sample_network [3 \<mapsto> sample_enr 3 1]) [])
          [Select, LookupDone 3 (Inl Cancelled) 10])
     \<noteq> spec_unresponsive (\<lambda>a b. a - b) (\<lambda>i. 0) (sample_network [3 \<mapsto> sample_enr 3 1]) []
          [Select, LookupDone 3 (Inl Cancelled) 10]
   \<and> map_of (unresponsive_cache
       (run_lookup 7 (routing_table (sample_network [3 \<mapsto> sample_enr 3 1]))
          (init_lookup (\<lambda>a b. a - b) (\<lambda>i. 0) (sample_network [3 \<mapsto> sample_enr 3 1]) [])
          [Select, LookupDone 3 (Inl Cancelled) 10])) 3 = None"
proof (intro conjI)
  let ?net = "sample_network [3 \<mapsto> sample_enr 3 1]"
  let ?st0 = "init_lookup (\<lambda>a b. a - b) (\<lambda>i. 0) ?net []"
  let ?events = "[Select, LookupDone 3 (Inl Cancelled) 10]"
  show b: "get_unqueried_node_ids 7 (routing_table ?net) ?st0 = [3]"
    by (rule sample_first_batch)
  have "3 \<in> unresponsive_node_ids (run_lookup 7 (routing_table ?net) ?st0 ?events)"
    by (simp add: run_lookup_unresponsive)
  moreover have "3 \<notin> spec_unresponsive (\<lambda>a b. a - b) (\<lambda>i. 0) ?net [] ?events"
    by (simp add: spec_unresponsive_def spec_failure_def sample_network_def)
  ultimately show "unresponsive_node_ids (run_lookup 7 (routing_table ?net) ?st0 ?events)
     \<noteq> spec_unresponsive (\<lambda>a b. a - b) (\<lambda>i. 0) ?net [] ?events"
    by blast
  have "unresponsive_cache (snd (worker_select 7 (routing_table ?net) ?st0)) = []"
    by (simp add: worker_select_cache init_lookup_def)
  then show "map_of (unresponsive_cache (run_lookup 7 (routing_table ?net) ?st0 ?events)) 3 = None"
    by (simp add: run_lookup_def do_lookup_def)
qed

subsection \<open>\<open>Network.lookup_enr\<close>: cached or fetched\<close>







end
